theory Spec2Isabelle
  imports Complex_Main "HOL-Library.AList"
begin

section \<open>JavaScript values used by the response routes\<close>

text \<open>
  The handlers of \<^verbatim>\<open>api/routes/responses.ts\<close> compute with JavaScript numbers,
  strings and plain objects. Numbers are modelled without rounding and without overflow:
  a finite number is an exact value, next to the two infinities and NaN. A number read from text by
  \<^verbatim>\<open>parseFloat\<close> is an exact decimal \<open>m * 10 ^ e\<close>, kept normalised (no trailing
  zero in \<open>m\<close>, and \<open>e = 0\<close> when \<open>m = 0\<close>); sums of such numbers and their quotient
  by a length are exact rationals. The sign of zero is not kept.
\<close>

datatype 'a number = Finite 'a | PosInfinity | NegInfinity | NaN

type_synonym decimal = "int \<times> int"

function normalise :: "int \<Rightarrow> int \<Rightarrow> decimal" where
  "normalise m e =
     (if m = 0 then (0, 0)
      else if m mod 10 = 0 then normalise (m div 10) (e + 1)
      else (m, e))"
  by pat_completeness auto
termination
  by (relation "measure (\<lambda>(m, e). nat \<bar>m\<bar>)") auto

declare normalise.simps [simp del]

definition decimal_value :: "decimal \<Rightarrow> rat" where
  "decimal_value d =
     (case d of (m, e) \<Rightarrow>
        if 0 \<le> e then of_int m * 10 ^ nat e else of_int m / 10 ^ nat (- e))"

definition Number :: "decimal number \<Rightarrow> rat number" where
  \<comment> \<open>the number a parsed literal denotes\<close>
  "Number x = map_number decimal_value x"

definition isNaN :: "'a number \<Rightarrow> bool" where
  "isNaN x = (case x of NaN \<Rightarrow> True | _ \<Rightarrow> False)"

fun js_add :: "rat number \<Rightarrow> rat number \<Rightarrow> rat number" where
  "js_add NaN _ = NaN"
| "js_add _ NaN = NaN"
| "js_add PosInfinity NegInfinity = NaN"
| "js_add NegInfinity PosInfinity = NaN"
| "js_add PosInfinity _ = PosInfinity"
| "js_add _ PosInfinity = PosInfinity"
| "js_add NegInfinity _ = NegInfinity"
| "js_add _ NegInfinity = NegInfinity"
| "js_add (Finite a) (Finite b) = Finite (a + b)"

definition js_div_length :: "rat number \<Rightarrow> nat \<Rightarrow> rat number" where
  \<comment> \<open>\<^verbatim>\<open>x / n\<close> for the length \<open>n\<close> of an array\<close>
  "js_div_length x n =
     (case x of
        NaN \<Rightarrow> NaN
      | PosInfinity \<Rightarrow> PosInfinity
      | NegInfinity \<Rightarrow> NegInfinity
      | Finite a \<Rightarrow>
          if n = 0 then (if a = 0 then NaN else if 0 < a then PosInfinity else NegInfinity)
          else Finite (a / of_nat n))"

subsection \<open>parseFloat\<close>

text \<open>
  \<^verbatim>\<open>parseFloat\<close> skips leading white space and reads the longest prefix that is a
  decimal literal: an optional sign, then \<^verbatim>\<open>Infinity\<close> or digits with an optional
  fraction and an optional exponent. What follows the prefix is ignored; without such a
  prefix the result is NaN. Strings are sequences of 8-bit characters here, so the white
  space of the model is the white space below U+0100.
\<close>

definition digit_of :: "char \<Rightarrow> nat option" where
  "digit_of c = map_of (zip ''0123456789'' [0 ..< 10]) c"

definition is_digit :: "char \<Rightarrow> bool" where
  "is_digit c = (c \<in> set ''0123456789'')"

definition is_white_space :: "char \<Rightarrow> bool" where
  "is_white_space c =
     (c \<in> set [CHR 0x09, CHR 0x0A, CHR 0x0B, CHR 0x0C, CHR 0x0D, CHR 0x20, CHR 0xA0])"

definition digits_value :: "string \<Rightarrow> nat" where
  "digits_value ds = foldl (\<lambda>a c. 10 * a + the (digit_of c)) 0 (filter is_digit ds)"

definition starts_with :: "string \<Rightarrow> string \<Rightarrow> bool" where
  "starts_with s p = (take (length p) s = p)"

definition exponent_part :: "string \<Rightarrow> int" where
  \<comment> \<open>the value of an exponent part at the head of the string, 0 when there is none\<close>
  "exponent_part s =
     (case s of
        [] \<Rightarrow> 0
      | c # r \<Rightarrow>
          if c = CHR ''e'' \<or> c = CHR ''E'' then
            (case r of
               [] \<Rightarrow> 0
             | d # r' \<Rightarrow>
                 if d = CHR ''-'' then
                   (if takeWhile is_digit r' = [] then 0
                    else - int (digits_value (takeWhile is_digit r')))
                 else if d = CHR ''+'' then int (digits_value (takeWhile is_digit r'))
                 else int (digits_value (takeWhile is_digit r)))
          else 0)"

definition unsigned_literal :: "string \<Rightarrow> decimal number" where
  "unsigned_literal s =
     (if starts_with s ''Infinity'' then PosInfinity
      else
        let ip = takeWhile is_digit s;
            r1 = dropWhile is_digit s;
            fp = (case r1 of [] \<Rightarrow> [] | c # r \<Rightarrow>
                    if c = CHR ''.'' then takeWhile is_digit r else []);
            r2 = (case r1 of [] \<Rightarrow> [] | c # r \<Rightarrow>
                    if c = CHR ''.'' then dropWhile is_digit r else r1)
        in if ip = [] \<and> fp = [] then NaN
           else Finite (normalise (int (digits_value (ip @ fp)))
                          (exponent_part r2 - int (length fp))))"

definition negate :: "decimal number \<Rightarrow> decimal number" where
  "negate x =
     (case x of
        Finite (m, e) \<Rightarrow> Finite (- m, e)
      | PosInfinity \<Rightarrow> NegInfinity
      | NegInfinity \<Rightarrow> PosInfinity
      | NaN \<Rightarrow> NaN)"

definition parseFloat :: "string \<Rightarrow> decimal number" where
  "parseFloat s =
     (case dropWhile is_white_space s of
        [] \<Rightarrow> NaN
      | c # r \<Rightarrow>
          if c = CHR ''-'' then negate (unsigned_literal r)
          else if c = CHR ''+'' then unsigned_literal r
          else unsigned_literal (c # r))"

subsection \<open>Number.prototype.toString\<close>

function digits :: "nat \<Rightarrow> string" where
  "digits n =
     (if n < 10 then [''0123456789'' ! n]
      else digits (n div 10) @ [''0123456789'' ! (n mod 10)])"
  by pat_completeness auto
termination
  by (relation "measure id") auto

declare digits.simps [simp del]

definition number_to_string :: "nat \<Rightarrow> int \<Rightarrow> string" where
  \<comment> \<open>the digits \<open>s\<close> (\<open>k\<close> of them), scaled by \<open>10 ^ e\<close>, with \<open>n = k + e\<close>\<close>
  "number_to_string s e =
     (let ds = digits s; k = int (length ds); n = k + e
      in if k \<le> n \<and> n \<le> 21 then ds @ replicate (nat (n - k)) (CHR ''0'')
         else if 0 < n \<and> n \<le> 21 then take (nat n) ds @ ''.'' @ drop (nat n) ds
         else if - 6 < n \<and> n \<le> 0 then ''0.'' @ replicate (nat (- n)) (CHR ''0'') @ ds
         else (if k = 1 then ds else take 1 ds @ ''.'' @ drop 1 ds)
              @ ''e'' @ (if n - 1 < 0 then ''-'' else ''+'') @ digits (nat \<bar>n - 1\<bar>))"

definition toString :: "decimal number \<Rightarrow> string" where
  "toString x =
     (case x of
        NaN \<Rightarrow> ''NaN''
      | PosInfinity \<Rightarrow> ''Infinity''
      | NegInfinity \<Rightarrow> ''-Infinity''
      | Finite (m, e) \<Rightarrow>
          if m = 0 then ''0''
          else if m < 0 then ''-'' @ number_to_string (nat (- m)) e
          else number_to_string (nat m) e)"


subsection \<open>Plain objects\<close>

text \<open>
  An object written \<^verbatim>\<open>{}\<close> or \<^verbatim>\<open>{ k: v, ... }\<close> is the list of its own properties
  in insertion order, and inherits from \<^verbatim>\<open>Object.prototype\<close>: reading a key it does not
  own finds the built-in of that name when there is one, and assigning to the key
  \<^verbatim>\<open>__proto__\<close> runs the inherited setter, which ignores every value that is not an
  object and creates no own property. The handlers store only numbers and strings under
  computed keys.
\<close>

datatype jsvalue =
    JUndefined
  | JString string
  | JNumber "rat number"
  | JObject "(string \<times> jsvalue) list"
  | JNative string
  | JObjectPrototype

type_synonym object = "(string \<times> jsvalue) list"

definition object_prototype_functions :: "string list" where
  "object_prototype_functions =
     [''hasOwnProperty'', ''isPrototypeOf'', ''propertyIsEnumerable'', ''toLocaleString'',
      ''toString'', ''valueOf'', ''__defineGetter__'', ''__defineSetter__'',
      ''__lookupGetter__'', ''__lookupSetter__'']"

definition object_prototype_get :: "string \<Rightarrow> jsvalue" where
  "object_prototype_get k =
     (if k = ''__proto__'' then JObjectPrototype
      else if k = ''constructor'' then JNative ''Object''
      else if k \<in> set object_prototype_functions then JNative k
      else JUndefined)"

definition js_get :: "object \<Rightarrow> string \<Rightarrow> jsvalue" where
  \<comment> \<open>\<^verbatim>\<open>obj[k]\<close>\<close>
  "js_get obj k = (case map_of obj k of Some v \<Rightarrow> v | None \<Rightarrow> object_prototype_get k)"

definition js_set :: "object \<Rightarrow> string \<Rightarrow> jsvalue \<Rightarrow> object" where
  \<comment> \<open>\<^verbatim>\<open>obj[k] = v\<close>, for the values the handlers store: under \<^verbatim>\<open>__proto__\<close> a number or
     a string, which the inherited setter ignores\<close>
  "js_set obj k v = (if k = ''__proto__'' then obj else AList.update k v obj)"

definition keys :: "object \<Rightarrow> string list" where
  \<comment> \<open>the names of the own properties, in the order of insertion\<close>
  "keys obj = map fst obj"

definition truthy :: "jsvalue \<Rightarrow> bool" where
  "truthy v =
     (case v of
        JUndefined \<Rightarrow> False
      | JString s \<Rightarrow> s \<noteq> []
      | JNumber x \<Rightarrow> x \<noteq> Finite 0 \<and> x \<noteq> NaN
      | _ \<Rightarrow> True)"

definition js_or :: "jsvalue \<Rightarrow> jsvalue \<Rightarrow> jsvalue" where
  \<comment> \<open>\<^verbatim>\<open>a || b\<close>\<close>
  "js_or a b = (if truthy a then a else b)"

definition js_plus_one :: "jsvalue \<Rightarrow> jsvalue" where
  \<comment> \<open>\<^verbatim>\<open>v + 1\<close>: addition on a number; on anything else, the string form of \<open>v\<close>
     followed by the digit 1\<close>
  "js_plus_one v =
     (case v of
        JNumber x \<Rightarrow> JNumber (js_add x (Finite 1))
      | JString s \<Rightarrow> JString (s @ ''1'')
      | JNative f \<Rightarrow> JString (''function '' @ f @ ''() { [native code] }'' @ ''1'')
      | JObject _ \<Rightarrow> JString ''[object Object]1''
      | JObjectPrototype \<Rightarrow> JString ''[object Object]1''
      | JUndefined \<Rightarrow> JNumber NaN)"

section \<open>The statistics of a survey\<close>

text \<open>
  \<^verbatim>\<open>GET /api/responses/survey/:surveyId/stats\<close> reads the questions of the survey, each
  with the answers given to it, and maps every question to a summary object.
\<close>

record answer =
  answer_text :: "string option"
  answer_options :: "string list option"

record question =
  id_q :: string
  question_text :: string
  question_type :: string
  options :: "string list option"
  answers :: "answer list"

definition count_key :: "object \<Rightarrow> string \<Rightarrow> object" where
  \<comment> \<open>\<^verbatim>\<open>counts[key] = (counts[key] || 0) + 1\<close>\<close>
  "count_key counts key =
     js_set counts key (js_plus_one (js_or (js_get counts key) (JNumber (Finite 0))))"

definition count_answer :: "object \<Rightarrow> answer \<Rightarrow> object" where
  "count_answer optionCounts a =
     (case answer_options a of
        None \<Rightarrow> optionCounts
      | Some opts \<Rightarrow> foldl count_key optionCounts opts)"

definition optionCounts :: "answer list \<Rightarrow> object" where
  "optionCounts as = foldl count_answer [] as"

definition text_or_zero :: "string option \<Rightarrow> string" where
  \<comment> \<open>\<^verbatim>\<open>answer.answer_text || '0'\<close>\<close>
  "text_or_zero t = (case t of None \<Rightarrow> ''0'' | Some s \<Rightarrow> if s = [] then ''0'' else s)"

definition ratings :: "answer list \<Rightarrow> decimal number list" where
  "ratings as =
     filter (\<lambda>rating. \<not> isNaN rating)
       (map (\<lambda>a. parseFloat (text_or_zero (answer_text a))) as)"

definition rating_sum :: "decimal number list \<Rightarrow> rat number" where
  \<comment> \<open>\<^verbatim>\<open>ratings.reduce((sum, rating) => sum + rating, 0)\<close>\<close>
  "rating_sum rs = foldl (\<lambda>sum rating. js_add sum (Number rating)) (Finite 0) rs"

definition rating_distribution :: "decimal number list \<Rightarrow> object" where
  "rating_distribution rs = foldl (\<lambda>dist rating. count_key dist (toString rating)) [] rs"

definition questionStats :: "question \<Rightarrow> object" where
  "questionStats q =
     (let stats =
            [(''id'', JString (id_q q)),
             (''question_text'', JString (question_text q)),
             (''question_type'', JString (question_type q)),
             (''total_answers'', JNumber (Finite (of_nat (length (answers q)))))]
      in if question_type q = ''single_choice'' \<or> question_type q = ''multiple_choice'' then
           js_set stats ''option_stats'' (JObject (optionCounts (answers q)))
         else if question_type q = ''rating'' then
           (let rs = ratings (answers q)
            in if 0 < length rs then
                 js_set
                   (js_set stats ''average_rating''
                      (JNumber (js_div_length (rating_sum rs) (length rs))))
                   ''rating_distribution'' (JObject (rating_distribution rs))
               else stats)
         else stats)"


subsection \<open>Notions used to state the properties of the statistics\<close>

definition bump :: "(string \<times> nat) list \<Rightarrow> string \<Rightarrow> (string \<times> nat) list" where
  \<comment> \<open>a counter over keys that inherit nothing: one more occurrence of \<open>k\<close>\<close>
  "bump m k = AList.update k (case map_of m k of None \<Rightarrow> 1 | Some c \<Rightarrow> c + 1) m"

definition as_object :: "(string \<times> nat) list \<Rightarrow> object" where
  "as_object m = map (\<lambda>(k, c). (k, JNumber (Finite (of_nat c)))) m"

definition safe_key :: "string \<Rightarrow> bool" where
  \<comment> \<open>a key that is not the name of a property of \<^verbatim>\<open>Object.prototype\<close>\<close>
  "safe_key k = (k \<noteq> ''__proto__'' \<and> object_prototype_get k = JUndefined)"








definition selected :: "answer list \<Rightarrow> string list" where
  \<comment> \<open>every selected option value, answer after answer\<close>
  "selected as = concat (map (\<lambda>a. case answer_options a of None \<Rightarrow> [] | Some os \<Rightarrow> os) as)"

section \<open>Submitting a response\<close>

text \<open>
  \<^verbatim>\<open>POST /api/responses\<close> validates the body, reads the survey and its questions,
  inserts one row into \<^verbatim>\<open>responses\<close> and then the batch of rows into \<^verbatim>\<open>answers\<close>.
  The store is the four tables the handler touches. Every call to the store returns
  either data or an error; whether a call fails for a reason outside the handler is an
  input of the model, as is the identifier the store generates for the new response.
  The patterns that the validation library accepts as a UUID and as an e-mail address
  are parameters as well.
\<close>

record submitted_answer = answer +
  question_id :: string

record answer_row = submitted_answer +
  response_id :: string

record respondent =
  respondent_email :: "string option"
  respondent_name :: "string option"

record body = respondent +
  survey_id :: string
  answers_b :: "submitted_answer list"

record response_row = respondent +
  id_r :: string
  survey_id_r :: string

record survey_row =
  id_s :: string
  status :: string
  title :: string

record question_row =
  id_qr :: string
  survey_id_q :: string
  question_text_q :: string
  question_type_q :: string
  options_q :: "string list option"
  is_required :: bool

record db =
  tbl_surveys :: "survey_row list"
  tbl_questions :: "question_row list"
  tbl_responses :: "response_row list"
  tbl_answers :: "answer_row list"

record validators =
  uuid :: "string \<Rightarrow> bool"
  email :: "string \<Rightarrow> bool"

record outcomes =
  survey_query_fails :: bool
  questions_query_fails :: bool
  response_insert_fails :: bool
  new_response_id :: string
  answers_insert_fails :: bool
  response_delete_fails :: bool

datatype failure =
    InvalidBody
  | SurveyNotFound
  | SurveyNotPublished
  | QuestionsNotRead
  | RequiredNotAnswered string
  | InvalidQuestionId
  | ResponseNotCreated
  | AnswersNotSaved

definition http_status :: "failure + string \<Rightarrow> nat" where
  "http_status r =
     (case r of
        Inr _ \<Rightarrow> 201
      | Inl InvalidBody \<Rightarrow> 400
      | Inl SurveyNotFound \<Rightarrow> 404
      | Inl SurveyNotPublished \<Rightarrow> 400
      | Inl QuestionsNotRead \<Rightarrow> 500
      | Inl (RequiredNotAnswered _) \<Rightarrow> 400
      | Inl InvalidQuestionId \<Rightarrow> 400
      | Inl ResponseNotCreated \<Rightarrow> 500
      | Inl AnswersNotSaved \<Rightarrow> 500)"

definition answerSchema :: "validators \<Rightarrow> submitted_answer \<Rightarrow> bool" where
  "answerSchema v a = uuid v (question_id a)"

definition responseSchema :: "validators \<Rightarrow> body \<Rightarrow> bool" where
  "responseSchema v b =
     (uuid v (survey_id b)
      \<and> (case respondent_email b of None \<Rightarrow> True | Some e \<Rightarrow> email v e)
      \<and> (case respondent_name b of None \<Rightarrow> True | Some n \<Rightarrow> 1 \<le> length n)
      \<and> 1 \<le> length (answers_b b)
      \<and> list_all (answerSchema v) (answers_b b))"

definition single :: "'a list \<Rightarrow> 'a option" where
  \<comment> \<open>\<^verbatim>\<open>.single()\<close>: an error unless exactly one row is selected\<close>
  "single rows = (case rows of [r] \<Rightarrow> Some r | _ \<Rightarrow> None)"

definition select_survey :: "outcomes \<Rightarrow> db \<Rightarrow> string \<Rightarrow> survey_row option" where
  "select_survey env d sid =
     (if survey_query_fails env then None
      else single (filter (\<lambda>s. id_s s = sid) (tbl_surveys d)))"

definition select_questions :: "outcomes \<Rightarrow> db \<Rightarrow> string \<Rightarrow> question_row list option" where
  "select_questions env d sid =
     (if questions_query_fails env then None
      else Some (filter (\<lambda>q. survey_id_q q = sid) (tbl_questions d)))"

definition insert_response :: "outcomes \<Rightarrow> db \<Rightarrow> body \<Rightarrow> (db \<times> string) option" where
  \<comment> \<open>the identifier is the primary key: a row with an identifier in use is refused\<close>
  "insert_response env d b =
     (if response_insert_fails env
         \<or> new_response_id env \<in> set (map id_r (tbl_responses d)) then None
      else Some
        (d\<lparr>tbl_responses := tbl_responses d @
             [\<lparr>respondent_email = respondent_email b, respondent_name = respondent_name b,
               id_r = new_response_id env, survey_id_r = survey_id b\<rparr>]\<rparr>,
         new_response_id env))"

definition answersToInsert :: "string \<Rightarrow> submitted_answer list \<Rightarrow> answer_row list" where
  "answersToInsert rid as =
     map (\<lambda>a. \<lparr>answer_text = answer_text a, answer_options = answer_options a,
               question_id = question_id a, response_id = rid\<rparr>) as"

definition insert_answers :: "outcomes \<Rightarrow> db \<Rightarrow> answer_row list \<Rightarrow> db option" where
  \<comment> \<open>one statement: all of the rows or none\<close>
  "insert_answers env d rows =
     (if answers_insert_fails env then None
      else Some (d\<lparr>tbl_answers := tbl_answers d @ rows\<rparr>))"

definition delete_response :: "outcomes \<Rightarrow> db \<Rightarrow> string \<Rightarrow> db" where
  \<comment> \<open>the handler does not look at the result of the deletion; the answers of a deleted
     response go with it (\<^verbatim>\<open>ON DELETE CASCADE\<close>)\<close>
  "delete_response env d rid =
     (if response_delete_fails env then d
      else d\<lparr>tbl_responses := filter (\<lambda>r. id_r r \<noteq> rid) (tbl_responses d),
             tbl_answers := filter (\<lambda>a. response_id a \<noteq> rid) (tbl_answers d)\<rparr>)"

definition post_response ::
  "validators \<Rightarrow> outcomes \<Rightarrow> db \<Rightarrow> body \<Rightarrow> db \<times> (failure + string)" where
  "post_response v env d b =
     (if \<not> responseSchema v b then (d, Inl InvalidBody)
      else (case select_survey env d (survey_id b) of
        None \<Rightarrow> (d, Inl SurveyNotFound)
      | Some survey \<Rightarrow>
          if status survey \<noteq> ''published'' then (d, Inl SurveyNotPublished)
          else (case select_questions env d (survey_id b) of
            None \<Rightarrow> (d, Inl QuestionsNotRead)
          | Some questions \<Rightarrow>
              let requiredQuestions = filter is_required questions;
                  answeredQuestionIds = map question_id (answers_b b);
                  validQuestionIds = map id_qr questions
              in (case find (\<lambda>rq. id_qr rq \<notin> set answeredQuestionIds) requiredQuestions of
                   Some rq \<Rightarrow> (d, Inl (RequiredNotAnswered (question_text_q rq)))
                 | None \<Rightarrow>
                     if list_ex (\<lambda>a. question_id a \<notin> set validQuestionIds) (answers_b b)
                     then (d, Inl InvalidQuestionId)
                     else (case insert_response env d b of
                       None \<Rightarrow> (d, Inl ResponseNotCreated)
                     | Some (d1, rid) \<Rightarrow>
                         (case insert_answers env d1 (answersToInsert rid (answers_b b)) of
                            None \<Rightarrow> (delete_response env d1 rid, Inl AnswersNotSaved)
                          | Some d2 \<Rightarrow> (d2, Inr rid)))))))"

subsection \<open>Notions used to state the properties of the submission\<close>

definition foreign_keys_hold :: "db \<Rightarrow> bool" where
  \<comment> \<open>\<^verbatim>\<open>answers.response_id\<close> references \<^verbatim>\<open>responses(id)\<close>\<close>
  "foreign_keys_hold d =
     list_all (\<lambda>a. response_id a \<in> set (map id_r (tbl_responses d))) (tbl_answers d)"

section \<open>Concrete inputs\<close>

definition text_answer :: "string \<Rightarrow> answer" where
  "text_answer t = \<lparr>answer_text = Some t, answer_options = None\<rparr>"

definition options_answer :: "string list \<Rightarrow> answer" where
  "options_answer os = \<lparr>answer_text = None, answer_options = Some os\<rparr>"

definition empty_answer :: answer where
  "empty_answer = \<lparr>answer_text = None, answer_options = None\<rparr>"

definition example_question :: "string \<Rightarrow> answer list \<Rightarrow> question" where
  "example_question t as =
     \<lparr>id_q = ''q1'', question_text = ''Q'', question_type = t,
      options = Some [''a'', ''b''], answers = as\<rparr>"

definition hex_uuid :: "string \<Rightarrow> bool" where
  "hex_uuid s =
     (length s = 36
      \<and> list_all (\<lambda>i. if i \<in> set [8, 13, 18, 23] then s ! i = CHR ''-''
                       else s ! i \<in> set ''0123456789abcdefABCDEF'') [0 ..< 36])"

definition example_validators :: validators where
  "example_validators = \<lparr>uuid = hex_uuid, email = (\<lambda>e. CHR ''@'' \<in> set e)\<rparr>"

definition example_db :: db where
  "example_db =
     \<lparr>tbl_surveys =
        [\<lparr>id_s = ''11111111-1111-4111-8111-111111111111'', status = ''published'',
          title = ''Lunch''\<rparr>],
      tbl_questions =
        [\<lparr>id_qr = ''22222222-2222-4222-8222-222222222222'',
          survey_id_q = ''11111111-1111-4111-8111-111111111111'',
          question_text_q = ''Dish'', question_type_q = ''single_choice'',
          options_q = Some [''a'', ''b''], is_required = True\<rparr>,
         \<lparr>id_qr = ''44444444-4444-4444-8444-444444444444'',
          survey_id_q = ''55555555-5555-4555-8555-555555555555'',
          question_text_q = ''Other'', question_type_q = ''text'',
          options_q = None, is_required = False\<rparr>],
      tbl_responses = [],
      tbl_answers = []\<rparr>"

definition example_outcomes :: outcomes where
  "example_outcomes =
     \<lparr>survey_query_fails = False, questions_query_fails = False,
      response_insert_fails = False,
      new_response_id = ''33333333-3333-4333-8333-333333333333'',
      answers_insert_fails = False, response_delete_fails = False\<rparr>"

definition example_body :: "submitted_answer list \<Rightarrow> body" where
  "example_body as =
     \<lparr>respondent_email = None, respondent_name = None,
      survey_id = ''11111111-1111-4111-8111-111111111111'', answers_b = as\<rparr>"

definition chosen :: "string \<Rightarrow> string list \<Rightarrow> submitted_answer" where
  "chosen qid os = \<lparr>answer_text = None, answer_options = Some os, question_id = qid\<rparr>"

section \<open>Lemmas about the statistics\<close>

subsection \<open>Counting under keys that inherit nothing\<close>

lemma map_of_as_object:
  "map_of (as_object m) k = map_option (\<lambda>c. JNumber (Finite (of_nat c))) (map_of m k)"
  by (induction m) (auto simp: as_object_def)

lemma update_as_object:
  "AList.update k (JNumber (Finite (of_nat c))) (as_object m) = as_object (AList.update k c m)"
  by (induction m) (auto simp: as_object_def)

lemma count_key_as_object:
  assumes "safe_key k" and "\<forall>x \<in> set m. 0 < snd x"
  shows "count_key (as_object m) k = as_object (bump m k)"
proof (cases "map_of m k")
  case None
  then show ?thesis using assms(1)
    by (simp add: count_key_def js_get_def js_set_def js_or_def truthy_def js_plus_one_def
        map_of_as_object safe_key_def bump_def update_as_object [symmetric])
next
  case (Some c)
  then have "(k, c) \<in> set m" by (rule map_of_SomeD)
  then have "0 < c" using assms(2) by force
  then show ?thesis using assms(1) Some
    by (simp add: count_key_def js_get_def js_set_def js_or_def truthy_def js_plus_one_def
        map_of_as_object safe_key_def bump_def update_as_object [symmetric] add.commute)
qed

lemma sum_update:
  "sum_list (map snd (AList.update k v m)) + (case map_of m k of None \<Rightarrow> 0 | Some c \<Rightarrow> c)
     = sum_list (map snd m) + (v::nat)"
  by (induction m) auto

lemma sum_bump: "sum_list (map snd (bump m k)) = sum_list (map snd m) + 1"
  using sum_update [of k "case map_of m k of None \<Rightarrow> 1 | Some c \<Rightarrow> c + 1" m]
  by (auto simp: bump_def split: option.splits)

lemma positive_bump:
  "\<forall>x \<in> set m. 0 < snd x \<Longrightarrow> \<forall>x \<in> set (bump m k). 0 < snd x"
  unfolding bump_def
  by (induction m) (auto split: option.splits if_splits)



lemma foldl_count_key:
  assumes "\<forall>k \<in> set ks. safe_key k" and "\<forall>x \<in> set m. 0 < snd x"
  shows "foldl count_key (as_object m) ks = as_object (foldl bump m ks)"
  using assms
proof (induction ks arbitrary: m)
  case Nil
  then show ?case by simp
next
  case (Cons k ks)
  have "count_key (as_object m) k = as_object (bump m k)"
    using Cons.prems by (simp add: count_key_as_object)
  moreover have "foldl count_key (as_object (bump m k)) ks = as_object (foldl bump (bump m k) ks)"
    using Cons.prems by (intro Cons.IH positive_bump) simp_all
  ultimately show ?case by simp
qed

lemma sum_foldl_bump: "sum_list (map snd (foldl bump m ks)) = sum_list (map snd m) + length ks"
  by (induction ks arbitrary: m) (simp_all add: sum_bump)



lemma map_of_foldl_bump:
  "map_of (foldl bump m ks) k =
     (case map_of m k of
        None \<Rightarrow> if k \<in> set ks then Some (count_list ks k) else None
      | Some c \<Rightarrow> Some (c + count_list ks k))"
  by (induction ks arbitrary: m) (auto simp: bump_def update_conv' split: option.splits)

subsection \<open>The string form of a number is such a key\<close>








lemma js_get_js_set: "k \<noteq> ''__proto__'' \<Longrightarrow> js_get (js_set obj k v) k' = (if k' = k then v else js_get obj k')"
  by (simp add: js_get_def js_set_def update_conv')

lemma keys_js_set: "k \<noteq> ''__proto__'' \<Longrightarrow> set (keys (js_set obj k v)) = insert k (set (keys obj))"
  by (simp add: keys_def js_set_def dom_update)

subsection \<open>Sums and the fields of a summary\<close>











lemma questionStats_no_ratings:
  assumes "question_type q = ''rating''" and "ratings (answers q) = []"
  shows "keys (questionStats q) = [''id'', ''question_text'', ''question_type'', ''total_answers'']"
  using assms by (simp add: questionStats_def Let_def keys_def)

lemma questionStats_choice:
  assumes "question_type q = ''single_choice'' \<or> question_type q = ''multiple_choice''"
  shows "js_get (questionStats q) ''option_stats'' = JObject (optionCounts (answers q))"
    and "js_get (questionStats q) ''total_answers'' = JNumber (Finite (of_nat (length (answers q))))"
  using assms by (simp_all add: questionStats_def Let_def js_get_js_set) (simp_all add: js_get_def)

lemma questionStats_other:
  assumes "question_type q \<noteq> ''single_choice''" "question_type q \<noteq> ''multiple_choice''"
    "question_type q \<noteq> ''rating''"
  shows "questionStats q =
            [(''id'', JString (id_q q)),
             (''question_text'', JString (question_text q)),
             (''question_type'', JString (question_type q)),
             (''total_answers'', JNumber (Finite (of_nat (length (answers q)))))]"
  using assms by (simp add: questionStats_def Let_def)

subsection \<open>One string form for each number\<close>

lemma decimal_value_powi: "decimal_value (m, e) = of_int m * 10 powi e"
  by (auto simp: decimal_value_def power_int_def field_simps)


lemma normalise_value: "decimal_value (normalise m e) = decimal_value (m, e)"
proof (induction m e rule: normalise.induct)
  case (1 m e)
  show ?case
  proof (cases "m \<noteq> 0 \<and> m mod 10 = 0")
    case True
    then have m: "m = 10 * (m div 10)" by presburger
    have "decimal_value (normalise m e) = decimal_value (m div 10, e + 1)"
      using True 1 by (subst normalise.simps) simp
    also have "\<dots> = of_int (m div 10) * (10 powi e * 10)"
      by (simp add: decimal_value_powi power_int_add)
    also have "\<dots> = of_int (10 * (m div 10)) * 10 powi e"
      by simp
    finally show ?thesis using m by (simp add: decimal_value_powi)
  next
    case False
    then show ?thesis
      by (subst normalise.simps) (auto simp: decimal_value_def)
  qed
qed







subsection \<open>The buckets of a distribution\<close>

lemma js_get_as_object:
  "safe_key k \<Longrightarrow> js_get (as_object m) k =
     (case map_of m k of None \<Rightarrow> JUndefined | Some c \<Rightarrow> JNumber (Finite (of_nat c)))"
  by (simp add: js_get_def map_of_as_object safe_key_def split: option.splits)





subsection \<open>The tallies of a choice question\<close>

lemma optionCounts_skip:
  assumes "answer_options a = None"
  shows "optionCounts (xs @ a # ys) = optionCounts (xs @ ys)"
  using assms by (simp add: optionCounts_def count_answer_def)

lemma foldl_count_answer:
  "foldl count_answer obj as = foldl count_key obj (selected as)"
  by (induction as arbitrary: obj) (simp_all add: selected_def count_answer_def split: option.splits)

lemma optionCounts_safe:
  assumes "\<forall>k \<in> set (selected as). safe_key k"
  shows "optionCounts as = as_object (foldl bump [] (selected as))"
proof -
  have "foldl count_key (as_object []) (selected as) = as_object (foldl bump [] (selected as))"
    using assms by (intro foldl_count_key) simp_all
  then show ?thesis by (simp add: optionCounts_def foldl_count_answer as_object_def)
qed

lemma safe_option_is_tallied:
  assumes "\<forall>k \<in> set (selected as). safe_key k" and "z \<in> set (selected as)"
  shows "js_get (optionCounts as) z = JNumber (Finite (of_nat (count_list (selected as) z)))"
  using assms by (simp add: optionCounts_safe js_get_as_object map_of_foldl_bump)

lemma safe_single_selections_sum:
  assumes "\<forall>k \<in> set (selected as). safe_key k" and "\<forall>a \<in> set as. \<exists>k. answer_options a = Some [k]"
  shows "\<exists>m. optionCounts as = as_object m \<and> sum_list (map snd m) = length as"
proof -
  have "length (selected as) = length as"
    using assms(2) by (induction as) (auto simp: selected_def)
  then show ?thesis
    using optionCounts_safe [OF assms(1)] sum_foldl_bump [of "[]" "selected as"] by auto
qed

section \<open>Lemmas about the submission of a response\<close>

lemma post_response_cases:
  assumes "post_response v env d b = (d', r)"
  obtains (rejected) f where "d' = d" "r = Inl f" "f \<noteq> AnswersNotSaved"
  | (not_saved) d1 rid where
      "\<not> list_ex (\<lambda>a. question_id a \<notin> set (map id_qr (filter (\<lambda>q. survey_id_q q = survey_id b) (tbl_questions d)))) (answers_b b)"
      "insert_response env d b = Some (d1, rid)" "answers_insert_fails env"
      "d' = delete_response env d1 rid" "r = Inl AnswersNotSaved"
  | (created) d1 rid where
      "\<not> list_ex (\<lambda>a. question_id a \<notin> set (map id_qr (filter (\<lambda>q. survey_id_q q = survey_id b) (tbl_questions d)))) (answers_b b)"
      "insert_response env d b = Some (d1, rid)" "\<not> answers_insert_fails env"
      "d' = d1\<lparr>tbl_answers := tbl_answers d1 @ answersToInsert rid (answers_b b)\<rparr>" "r = Inr rid"
  using assms
  unfolding post_response_def select_questions_def insert_answers_def Let_def
  by (auto split: if_splits option.splits prod.splits)

lemma insert_response_Some:
  assumes "insert_response env d b = Some (d1, rid)"
  shows "rid = new_response_id env" and "rid \<notin> set (map id_r (tbl_responses d))"
    and "d1 = d\<lparr>tbl_responses := tbl_responses d @
             [\<lparr>respondent_email = respondent_email b, respondent_name = respondent_name b,
               id_r = rid, survey_id_r = survey_id b\<rparr>]\<rparr>"
  using assms by (auto simp: insert_response_def split: if_splits)

lemma answersToInsert_rows:
  "a \<in> set (answersToInsert rid as) \<Longrightarrow>
     response_id a = rid \<and> question_id a \<in> set (map question_id as)"
  by (auto simp: answersToInsert_def)

lemma delete_inserted_response:
  assumes "insert_response env d b = Some (d1, rid)" and "foreign_keys_hold d"
    and "\<not> response_delete_fails env"
  shows "delete_response env d1 rid = d"
proof -
  note ins = insert_response_Some [OF assms(1)]
  have "filter (\<lambda>r. id_r r \<noteq> rid) (tbl_responses d) = tbl_responses d"
    using ins(2) by (auto simp: filter_id_conv)
  moreover have "filter (\<lambda>a. response_id a \<noteq> rid) (tbl_answers d) = tbl_answers d"
    using ins(2) assms(2) by (auto simp: filter_id_conv foreign_keys_hold_def list_all_iff)
  ultimately show ?thesis
    using assms(3) by (simp add: delete_response_def ins(3))
qed

lemma post_response_env:
  assumes "post_response v (env\<lparr>answers_insert_fails := False\<rparr>) d b = (d2, Inr rid)"
    and "answers_insert_fails env"
  shows "\<exists>d1. insert_response env d b = Some (d1, rid)
           \<and> post_response v env d b = (delete_response env d1 rid, Inl AnswersNotSaved)"
  using assms
  unfolding post_response_def select_survey_def select_questions_def insert_answers_def
    insert_response_def Let_def
  by (auto split: if_splits option.splits prod.splits)

section \<open>The claims about the statistics\<close>

text \<open>
  C1. For a text question the summary should carry a field \<^verbatim>\<open>text_responses\<close> with
  the non-empty answer texts in submission order. The handler has no branch for text
  questions: the summary of a text question with the one answer \<^verbatim>\<open>hello\<close> has the four
  common fields only, and no \<^verbatim>\<open>text_responses\<close>.
\<close>

theorem text_question_has_no_text_responses:
  "questionStats (example_question ''text'' [text_answer ''hello'']) =
     [(''id'', JString ''q1''), (''question_text'', JString ''Q''),
      (''question_type'', JString ''text''), (''total_answers'', JNumber (Finite 1))]
   \<and> ''text_responses'' \<notin> set (keys (questionStats (example_question ''text'' [text_answer ''hello''])))"
  by (simp add: questionStats_def example_question_def text_answer_def keys_def)









text \<open>
  C6. When each of the N answers to a multiple-choice question selects exactly one
  option, the tallies should sum to N. Of the two answers below, each with one selected
  value that the question defines, only one is tallied: the value \<^verbatim>\<open>__proto__\<close> reaches
  the inherited setter of the counting object and leaves no entry.
\<close>

theorem inherited_name_breaks_tally_sum:
  "js_get (questionStats ((example_question ''multiple_choice''
       [options_answer [''a''], options_answer [''__proto__'']])
       \<lparr>options := Some [''a'', ''__proto__'']\<rparr>)) ''option_stats''
     = JObject [(''a'', JNumber (Finite 1))]
   \<and> js_get (questionStats ((example_question ''multiple_choice''
       [options_answer [''a''], options_answer [''__proto__'']])
       \<lparr>options := Some [''a'', ''__proto__'']\<rparr>)) ''total_answers''
     = JNumber (Finite 2)"
  by code_simp

text \<open>
  C7. A selected value outside the defined options should be tallied under its literal
  value. The value \<^verbatim>\<open>z\<close> is; the value \<^verbatim>\<open>__proto__\<close> leaves no entry, and the value
  \<^verbatim>\<open>constructor\<close> gets a string built from the inherited function in place of a
  count.
\<close>

theorem inherited_name_is_not_tallied:
  "js_get (questionStats (example_question ''single_choice''
       [options_answer [''__proto__'']])) ''option_stats'' = JObject []
   \<and> js_get (questionStats (example_question ''single_choice''
       [options_answer [''constructor'']])) ''option_stats''
     = JObject [(''constructor'', JString ''function Object() { [native code] }1'')]
   \<and> js_get (questionStats (example_question ''single_choice''
       [options_answer [''z'']])) ''option_stats'' = JObject [(''z'', JNumber (Finite 1))]"
  by code_simp

text \<open>
  C8. For a choice question, an answer without \<^verbatim>\<open>answer_options\<close> is counted in
  \<^verbatim>\<open>total_answers\<close> and changes no tally: \<^verbatim>\<open>option_stats\<close> is what it is without
  that answer.
\<close>

theorem missing_options_no_tally:
  assumes "question_type q = ''single_choice'' \<or> question_type q = ''multiple_choice''"
    and "answer_options a = None"
  shows "js_get (questionStats (q\<lparr>answers := xs @ a # ys\<rparr>)) ''total_answers''
           = JNumber (Finite (of_nat (length (xs @ ys) + 1)))
       \<and> js_get (questionStats (q\<lparr>answers := xs @ a # ys\<rparr>)) ''option_stats''
           = js_get (questionStats (q\<lparr>answers := xs @ ys\<rparr>)) ''option_stats''"
  using assms by (simp add: questionStats_choice optionCounts_skip)

theorem missing_options_no_tally_witness:
  "(question_type (example_question ''multiple_choice'' []) = ''single_choice''
      \<or> question_type (example_question ''multiple_choice'' []) = ''multiple_choice'')
   \<and> answer_options empty_answer = None
   \<and> js_get (questionStats ((example_question ''multiple_choice'' [])
         \<lparr>answers := [options_answer [''a'']] @ empty_answer # [options_answer [''a'', ''b'']]\<rparr>))
         ''total_answers'' = JNumber (Finite 3)
   \<and> js_get (questionStats ((example_question ''multiple_choice'' [])
         \<lparr>answers := [options_answer [''a'']] @ empty_answer # [options_answer [''a'', ''b'']]\<rparr>))
         ''option_stats''
       = js_get (questionStats ((example_question ''multiple_choice'' [])
         \<lparr>answers := [options_answer [''a'']] @ [options_answer [''a'', ''b'']]\<rparr>))
         ''option_stats''"
proof -
  have h1: "question_type (example_question ''multiple_choice'' []) = ''single_choice''
      \<or> question_type (example_question ''multiple_choice'' []) = ''multiple_choice''"
    by (simp add: example_question_def)
  have h2: "answer_options empty_answer = None"
    by (simp add: empty_answer_def)
  show ?thesis
    using missing_options_no_tally [OF h1 h2, of "[options_answer [''a'']]"
        "[options_answer [''a'', ''b'']]"] h1 h2
    by simp
qed

text \<open>
  C9. The summary of a question without answers has \<^verbatim>\<open>total_answers = 0\<close>; for a choice
  question \<^verbatim>\<open>option_stats\<close> is the empty object, and for a rating question the summary
  has neither the key \<^verbatim>\<open>average_rating\<close> nor the key \<^verbatim>\<open>rating_distribution\<close>.
\<close>

theorem zero_answers_summary:
  assumes "answers q = []"
  shows "js_get (questionStats q) ''total_answers'' = JNumber (Finite 0)
       \<and> (question_type q = ''single_choice'' \<or> question_type q = ''multiple_choice''
            \<longrightarrow> js_get (questionStats q) ''option_stats'' = JObject [])
       \<and> (question_type q = ''rating''
            \<longrightarrow> ''average_rating'' \<notin> set (keys (questionStats q))
              \<and> ''rating_distribution'' \<notin> set (keys (questionStats q)))"
proof (intro conjI impI)
  show "js_get (questionStats q) ''total_answers'' = JNumber (Finite 0)"
    using assms
    by (simp add: questionStats_def Let_def js_get_js_set ratings_def) (simp add: js_get_def)
  show "js_get (questionStats q) ''option_stats'' = JObject []"
    if "question_type q = ''single_choice'' \<or> question_type q = ''multiple_choice''"
    using that assms by (simp add: questionStats_choice optionCounts_def)
  show "''average_rating'' \<notin> set (keys (questionStats q))"
    if "question_type q = ''rating''"
    using that assms by (simp add: questionStats_no_ratings ratings_def)
  show "''rating_distribution'' \<notin> set (keys (questionStats q))"
    if "question_type q = ''rating''"
    using that assms by (simp add: questionStats_no_ratings ratings_def)
qed

theorem zero_answers_summary_witness:
  "answers (example_question ''rating'' []) = []
   \<and> answers (example_question ''single_choice'' []) = []
   \<and> js_get (questionStats (example_question ''rating'' [])) ''total_answers'' = JNumber (Finite 0)
   \<and> ''average_rating'' \<notin> set (keys (questionStats (example_question ''rating'' [])))
   \<and> ''rating_distribution'' \<notin> set (keys (questionStats (example_question ''rating'' [])))
   \<and> js_get (questionStats (example_question ''single_choice'' [])) ''option_stats'' = JObject []"
proof -
  have h1: "answers (example_question ''rating'' []) = []"
    and h2: "answers (example_question ''single_choice'' []) = []"
    by (simp_all add: example_question_def)
  have t1: "question_type (example_question ''rating'' []) = ''rating''"
    and t2: "question_type (example_question ''single_choice'' []) = ''single_choice''"
    by (simp_all add: example_question_def)
  show ?thesis
    using zero_answers_summary [OF h1] zero_answers_summary [OF h2] h1 h2 t1 t2 by simp
qed

section \<open>The claims about the submission of a response\<close>

text \<open>
  C4, as amended. A submission that is accepted adds one response of the submitted
  survey and one answer row for each submitted answer, and the question of every stored
  answer belongs to the survey of that response; a submission with an answer to a
  question that is not of the submitted survey is rejected and the store is left as it
  was. The selected option values are not compared with the options of the question.
\<close>

theorem stored_answers_belong_to_survey:
  "(post_response v env d b = (d', Inr rid) \<longrightarrow>
      (\<exists>r. tbl_responses d' = tbl_responses d @ [r] \<and> id_r r = rid \<and> survey_id_r r = survey_id b
         \<and> tbl_answers d' = tbl_answers d @ answersToInsert rid (answers_b b)
         \<and> (\<forall>a \<in> set (answersToInsert rid (answers_b b)).
               response_id a = rid
               \<and> (\<exists>q \<in> set (tbl_questions d).
                     id_qr q = question_id a \<and> survey_id_q q = survey_id_r r))))
   \<and> ((\<exists>a \<in> set (answers_b b). \<forall>q \<in> set (tbl_questions d).
           id_qr q = question_id a \<longrightarrow> survey_id_q q \<noteq> survey_id b)
        \<longrightarrow> (\<exists>f. post_response v env d b = (d, Inl f)))"
proof (intro conjI impI)
  assume ok: "post_response v env d b = (d', Inr rid)"
  then show "\<exists>r. tbl_responses d' = tbl_responses d @ [r] \<and> id_r r = rid \<and> survey_id_r r = survey_id b
         \<and> tbl_answers d' = tbl_answers d @ answersToInsert rid (answers_b b)
         \<and> (\<forall>a \<in> set (answersToInsert rid (answers_b b)).
               response_id a = rid
               \<and> (\<exists>q \<in> set (tbl_questions d).
                     id_qr q = question_id a \<and> survey_id_q q = survey_id_r r))"
  proof (cases rule: post_response_cases)
    case (created d1 rid')
    then have rid: "rid' = rid" by simp
    note ins = insert_response_Some [OF created(2)]
    let ?r = "\<lparr>respondent_email = respondent_email b, respondent_name = respondent_name b,
               id_r = rid, survey_id_r = survey_id b\<rparr>"
    have "\<exists>q \<in> set (tbl_questions d). id_qr q = question_id a \<and> survey_id_q q = survey_id b"
      if mem: "a \<in> set (answersToInsert rid (answers_b b))" for a
    proof -
      obtain x where x: "x \<in> set (answers_b b)" and qx: "question_id x = question_id a"
        using answersToInsert_rows [OF mem] by auto
      have "question_id x \<in> set (map id_qr
              (filter (\<lambda>q. survey_id_q q = survey_id b) (tbl_questions d)))"
        using created(1) x unfolding list_ex_iff by blast
      then show ?thesis
        unfolding qx by auto
    qed
    then have "\<forall>a \<in> set (answersToInsert rid (answers_b b)).
               response_id a = rid
               \<and> (\<exists>q \<in> set (tbl_questions d).
                     id_qr q = question_id a \<and> survey_id_q q = survey_id_r ?r)"
      using answersToInsert_rows by simp
    moreover have "tbl_responses d' = tbl_responses d @ [?r]"
      "tbl_answers d' = tbl_answers d @ answersToInsert rid (answers_b b)"
      using created(4) ins(3) rid by simp_all
    ultimately show ?thesis
      by (intro exI [of _ ?r]) simp
  qed simp_all
next
  assume "\<exists>a \<in> set (answers_b b). \<forall>q \<in> set (tbl_questions d).
           id_qr q = question_id a \<longrightarrow> survey_id_q q \<noteq> survey_id b"
  then obtain a where a: "a \<in> set (answers_b b)"
    and na: "\<forall>q \<in> set (tbl_questions d). id_qr q = question_id a \<longrightarrow> survey_id_q q \<noteq> survey_id b"
    by blast
  have "question_id a \<notin> id_qr ` {q \<in> set (tbl_questions d). survey_id_q q = survey_id b}"
    using na by auto
  then have "question_id a \<notin> set (map id_qr
       (filter (\<lambda>q. survey_id_q q = survey_id b) (tbl_questions d)))"
    by simp
  then have foreign: "list_ex (\<lambda>a. question_id a \<notin> set (map id_qr
       (filter (\<lambda>q. survey_id_q q = survey_id b) (tbl_questions d)))) (answers_b b)"
    unfolding list_ex_iff using a by blast
  obtain d' r where p: "post_response v env d b = (d', r)"
    by (cases "post_response v env d b")
  from p show "\<exists>f. post_response v env d b = (d, Inl f)"
  proof (cases rule: post_response_cases)
    case (rejected f)
    then show ?thesis using p by simp
  next
    case (not_saved d1 rid)
    then show ?thesis using foreign by simp
  next
    case (created d1 rid)
    then show ?thesis using foreign by simp
  qed
qed

theorem stored_answers_belong_to_survey_witness:
  "post_response example_validators example_outcomes example_db
       (example_body [chosen ''22222222-2222-4222-8222-222222222222'' [''a'']])
     = (fst (post_response example_validators example_outcomes example_db
              (example_body [chosen ''22222222-2222-4222-8222-222222222222'' [''a'']])),
        Inr ''33333333-3333-4333-8333-333333333333'')
   \<and> (\<exists>r. tbl_responses (fst (post_response example_validators example_outcomes example_db
              (example_body [chosen ''22222222-2222-4222-8222-222222222222'' [''a'']])))
            = tbl_responses example_db @ [r]
          \<and> survey_id_r r = ''11111111-1111-4111-8111-111111111111'')
   \<and> (\<exists>a \<in> set (answers_b (example_body [chosen ''44444444-4444-4444-8444-444444444444'' []])).
         \<forall>q \<in> set (tbl_questions example_db).
           id_qr q = question_id a
           \<longrightarrow> survey_id_q q
                 \<noteq> survey_id (example_body [chosen ''44444444-4444-4444-8444-444444444444'' []]))
   \<and> (\<exists>f. post_response example_validators example_outcomes example_db
              (example_body [chosen ''44444444-4444-4444-8444-444444444444'' []])
            = (example_db, Inl f))"
proof -
  let ?b1 = "example_body [chosen ''22222222-2222-4222-8222-222222222222'' [''a'']]"
  let ?b2 = "example_body [chosen ''44444444-4444-4444-8444-444444444444'' []]"
  let ?p1 = "post_response example_validators example_outcomes example_db ?b1"
  have "snd ?p1 = Inr ''33333333-3333-4333-8333-333333333333''"
    by code_simp
  then have h1: "?p1 = (fst ?p1, Inr ''33333333-3333-4333-8333-333333333333'')"
    by (simp add: prod_eq_iff)
  have s1: "survey_id ?b1 = ''11111111-1111-4111-8111-111111111111''"
    by (simp add: example_body_def)
  have h2: "\<exists>a \<in> set (answers_b ?b2). \<forall>q \<in> set (tbl_questions example_db).
              id_qr q = question_id a \<longrightarrow> survey_id_q q \<noteq> survey_id ?b2"
    by code_simp
  have c1: "\<exists>r. tbl_responses (fst ?p1) = tbl_responses example_db @ [r]
          \<and> survey_id_r r = ''11111111-1111-4111-8111-111111111111''"
    using stored_answers_belong_to_survey [of example_validators example_outcomes example_db
        ?b1 "fst ?p1" "''33333333-3333-4333-8333-333333333333''"] h1 s1
    by auto
  have c2: "\<exists>f. post_response example_validators example_outcomes example_db ?b2
            = (example_db, Inl f)"
    using stored_answers_belong_to_survey [of example_validators example_outcomes example_db
        ?b2] h2
    by blast
  show ?thesis
    using h1 h2 c1 c2 by blast
qed

text \<open>
  C4, as stated, fails: the question below offers the options \<^verbatim>\<open>a\<close> and \<^verbatim>\<open>b\<close>, the
  submitted answer selects \<^verbatim>\<open>z\<close>, and the submission is accepted and stored.
\<close>

theorem undefined_option_is_stored:
  "map options_q (filter (\<lambda>q. id_qr q = ''22222222-2222-4222-8222-222222222222'')
       (tbl_questions example_db)) = [Some [''a'', ''b'']]
   \<and> snd (post_response example_validators example_outcomes example_db
             (example_body [chosen ''22222222-2222-4222-8222-222222222222'' [''z'']]))
       = Inr ''33333333-3333-4333-8333-333333333333''
   \<and> map answer_options
         (tbl_answers (fst (post_response example_validators example_outcomes example_db
             (example_body [chosen ''22222222-2222-4222-8222-222222222222'' [''z'']]))))
       = [Some [''z'']]"
  by code_simp

text \<open>
  C10, as amended. In a store whose answers all belong to a stored response, and when
  the deletion that the handler issues succeeds: a submission that would be accepted but
  for the failure of the insertion of its answers is answered with status 500 and leaves
  the store as it was, and so does every submission that is answered with a failure.
  The handler does not look at the result of the deletion.
\<close>

theorem failed_answers_insert_removes_response:
  assumes "foreign_keys_hold d" and "\<not> response_delete_fails env"
  shows "(answers_insert_fails env
            \<and> post_response v (env\<lparr>answers_insert_fails := False\<rparr>) d b = (d2, Inr rid)
          \<longrightarrow> post_response v env d b = (d, Inl AnswersNotSaved)
              \<and> http_status (Inl AnswersNotSaved) = 500)
       \<and> (post_response v env d b = (d', Inl f) \<longrightarrow> d' = d)"
proof (intro conjI impI)
  assume a: "answers_insert_fails env
            \<and> post_response v (env\<lparr>answers_insert_fails := False\<rparr>) d b = (d2, Inr rid)"
  then obtain d1 where "insert_response env d b = Some (d1, rid)"
    "post_response v env d b = (delete_response env d1 rid, Inl AnswersNotSaved)"
    using post_response_env by blast
  then show "post_response v env d b = (d, Inl AnswersNotSaved)"
    using assms by (simp add: delete_inserted_response)
  show "http_status (Inl AnswersNotSaved) = 500"
    by (simp add: http_status_def)
next
  assume "post_response v env d b = (d', Inl f)"
  then show "d' = d"
    using assms by (cases rule: post_response_cases) (simp_all add: delete_inserted_response)
qed

theorem failed_answers_insert_removes_response_witness:
  "foreign_keys_hold example_db
   \<and> \<not> response_delete_fails (example_outcomes\<lparr>answers_insert_fails := True\<rparr>)
   \<and> answers_insert_fails (example_outcomes\<lparr>answers_insert_fails := True\<rparr>)
   \<and> snd (post_response example_validators
             (example_outcomes\<lparr>answers_insert_fails := True, answers_insert_fails := False\<rparr>)
             example_db (example_body [chosen ''22222222-2222-4222-8222-222222222222'' [''a'']]))
       = Inr ''33333333-3333-4333-8333-333333333333''
   \<and> post_response example_validators (example_outcomes\<lparr>answers_insert_fails := True\<rparr>)
         example_db (example_body [chosen ''22222222-2222-4222-8222-222222222222'' [''a'']])
       = (example_db, Inl AnswersNotSaved)"
proof -
  let ?env = "example_outcomes\<lparr>answers_insert_fails := True\<rparr>"
  let ?b = "example_body [chosen ''22222222-2222-4222-8222-222222222222'' [''a'']]"
  let ?p = "post_response example_validators (?env\<lparr>answers_insert_fails := False\<rparr>) example_db ?b"
  have h1: "foreign_keys_hold example_db"
    by code_simp
  have h2: "\<not> response_delete_fails ?env"
    by (simp add: example_outcomes_def)
  have h3: "answers_insert_fails ?env"
    by simp
  have h4: "snd ?p = Inr ''33333333-3333-4333-8333-333333333333''"
    by code_simp
  then have h5: "?p = (fst ?p, Inr ''33333333-3333-4333-8333-333333333333'')"
    by (simp add: prod_eq_iff)
  show ?thesis
    using failed_answers_insert_removes_response [OF h1 h2, of example_validators ?b "fst ?p"
        "''33333333-3333-4333-8333-333333333333''"] h1 h2 h3 h4 h5
    by simp
qed

text \<open>
  C10, as stated, fails when the deletion fails as well: the handler answers with
  status 500 and the response stays in the store without any answer.
\<close>

theorem failed_delete_leaves_response:
  "snd (post_response example_validators
          (example_outcomes\<lparr>answers_insert_fails := True, response_delete_fails := True\<rparr>)
          example_db (example_body [chosen ''22222222-2222-4222-8222-222222222222'' [''a'']]))
     = Inl AnswersNotSaved
   \<and> map id_r (tbl_responses (fst (post_response example_validators
          (example_outcomes\<lparr>answers_insert_fails := True, response_delete_fails := True\<rparr>)
          example_db (example_body [chosen ''22222222-2222-4222-8222-222222222222'' [''a'']]))))
     = [''33333333-3333-4333-8333-333333333333'']
   \<and> tbl_answers (fst (post_response example_validators
          (example_outcomes\<lparr>answers_insert_fails := True, response_delete_fails := True\<rparr>)
          example_db (example_body [chosen ''22222222-2222-4222-8222-222222222222'' [''a'']])))
     = []"
  by code_simp

end
